theory Spec2Isabelle
  imports Complex_Main "HOL-Library.AList" "HOL-Library.Multiset"
begin

section \<open>Python built-ins used by the command-line tool\<close>

text \<open>
  Strings are byte strings; the helpers below cover the ASCII behaviour of
  \<^verbatim>\<open>str.strip\<close>, \<^verbatim>\<open>str.lower\<close>, \<^verbatim>\<open>str.split\<close>, \<^verbatim>\<open>int\<close> and \<^verbatim>\<open>str\<close>
  on a non-negative integer. Python floats are idealised as reals: every
  amount of the planners is compared, subtracted or passed to min and max,
  and rounding is not modelled.
\<close>

datatype py_error = ValueError | KeyError | IndexError

definition is_space :: "char \<Rightarrow> bool" where
  "is_space c = (c \<in> set [CHR 0x09, CHR 0x0A, CHR 0x0B, CHR 0x0C, CHR 0x0D,
                           CHR 0x1C, CHR 0x1D, CHR 0x1E, CHR 0x1F, CHR 0x20])"

definition strip :: "string \<Rightarrow> string" where
  "strip s = rev (dropWhile is_space (rev (dropWhile is_space s)))"

definition lower_char :: "char \<Rightarrow> char" where
  "lower_char c =
     (case map_of (zip ''ABCDEFGHIJKLMNOPQRSTUVWXYZ'' ''abcdefghijklmnopqrstuvwxyz'') c of
        None \<Rightarrow> c
      | Some l \<Rightarrow> l)"

definition lower :: "string \<Rightarrow> string" where
  "lower s = map lower_char s"

fun split_on :: "char \<Rightarrow> string \<Rightarrow> string list" where
  "split_on d [] = [[]]"
| "split_on d (c # cs) =
     (if c = d then [] # split_on d cs
      else (case split_on d cs of
              [] \<Rightarrow> [[c]]
            | w # ws \<Rightarrow> (c # w) # ws))"

definition is_digit :: "char \<Rightarrow> bool" where
  "is_digit c = (c \<in> set ''0123456789'')"

definition digit_val :: "char \<Rightarrow> nat" where
  "digit_val c = of_char c - 48"

text \<open>
  The digits of \<^verbatim>\<open>int(s)\<close>: decimal digits, a single underscore allowed
  between two digits. The flag says whether the previous character was a digit.
\<close>

fun int_digits :: "bool \<Rightarrow> nat \<Rightarrow> string \<Rightarrow> nat option" where
  "int_digits prev acc [] = (if prev then Some acc else None)"
| "int_digits prev acc (c # cs) =
     (if is_digit c then int_digits True (acc * 10 + digit_val c) cs
      else if c = CHR ''_'' \<and> prev then int_digits False acc cs
      else None)"

text \<open>\<^verbatim>\<open>int(s)\<close> in base 10; \<open>None\<close> stands for the ValueError.\<close>

definition py_int :: "string \<Rightarrow> int option" where
  "py_int s =
     (case strip s of
        [] \<Rightarrow> None
      | c # cs \<Rightarrow>
          if c = CHR ''-'' then map_option (\<lambda>n. - int n) (int_digits False 0 cs)
          else if c = CHR ''+'' then map_option int (int_digits False 0 cs)
          else map_option int (int_digits False 0 (c # cs)))"

text \<open>\<^verbatim>\<open>int(x)\<close> on a float truncates towards zero.\<close>

definition py_int_of_float :: "real \<Rightarrow> int" where
  "py_int_of_float x = (if 0 \<le> x then \<lfloor>x\<rfloor> else \<lceil>x\<rceil>)"

definition digit_char :: "nat \<Rightarrow> char" where
  "digit_char d = ''0123456789'' ! d"

text \<open>\<^verbatim>\<open>str(n)\<close> for a non-negative integer.\<close>

function str_nat :: "nat \<Rightarrow> string" where
  "str_nat n = (if n < 10 then [digit_char n]
                else str_nat (n div 10) @ [digit_char (n mod 10)])"
  by pat_completeness auto
termination
  by (relation "measure (\<lambda>n. n)") auto

declare str_nat.simps [simp del]

text \<open>Truthiness of an optional string field read with \<^verbatim>\<open>dict.get\<close>.\<close>

definition truthy :: "string option \<Rightarrow> bool" where
  "truthy v = (case v of None \<Rightarrow> False | Some s \<Rightarrow> s \<noteq> [])"

text \<open>\<^verbatim>\<open>d.get(key, '')\<close> on an optional string field.\<close>

definition get_str :: "string option \<Rightarrow> string" where
  "get_str v = (case v of None \<Rightarrow> [] | Some s \<Rightarrow> s)"

text \<open>\<^verbatim>\<open>float(d.get(key, '0'))\<close> on an optional numeric field.\<close>

definition get_float :: "real option \<Rightarrow> real" where
  "get_float v = (case v of None \<Rightarrow> 0 | Some x \<Rightarrow> x)"

section \<open>Data model\<close>

text \<open>An entry of the configuration file's \<^verbatim>\<open>accounts\<close> object.\<close>

record account_info =
  acc_type :: "string option"
  uuid :: "string option"
  apikey :: "string option"
  secret :: "string option"
  passphrase :: "string option"

text \<open>
  The configuration file: the \<^verbatim>\<open>accounts\<close> object in key order when the
  key is present, and whether the file has any other key.
\<close>

record config =
  accounts :: "(string \<times> account_info) list option"
  other_keys :: bool

text \<open>A savings product with its rate tiers.\<close>

record apy =
  maxStepVal :: "real option"

record product =
  productId :: "string option"
  apyList :: "apy list"

text \<open>The answer of the savings-assets query.\<close>

record savings_item =
  item_productId :: "string option"
  holdAmount :: "real option"

record savings_result =
  savings_code :: "string option"
  resultList :: "savings_item list"

text \<open>The answer of the spot-assets query.\<close>

record wallet_asset =
  available :: "real option"
  frozen :: "real option"

record wallet_result =
  wallet_code :: "string option"
  wallet_data :: "wallet_asset list"

text \<open>What step 2 stores for one account.\<close>

record account_status =
  account_info :: account_info
  savings_result :: savings_result
  wallet_result :: wallet_result

text \<open>An entry of \<^verbatim>\<open>valid_accounts\<close> in step 3 (the display name is left out).\<close>

record valid_account =
  va_id :: string
  va_type :: "string option"
  holding :: real
  wallet :: real
  space_to_tier1 :: real

datatype action = subscribe | redeem

record operation =
  op_account_id :: string
  op_action :: action
  op_amount :: real

section \<open>Savings planner\<close>

text \<open>The holding of the selected product in a savings answer (first match).\<close>

fun find_holding :: "string option \<Rightarrow> savings_item list \<Rightarrow> real" where
  "find_holding pid [] = 0"
| "find_holding pid (item # items) =
     (if item_productId item = pid then get_float (holdAmount item)
      else find_holding pid items)"

definition get_account_holding :: "account_status \<Rightarrow> string option \<Rightarrow> real" where
  "get_account_holding account_data product_id =
     (if savings_code (savings_result account_data) = Some ''00000''
      then find_holding product_id (resultList (savings_result account_data))
      else 0)"

text \<open>The available balance in a spot-assets answer.\<close>

definition available_of :: "wallet_result \<Rightarrow> real" where
  "available_of wr =
     (if wallet_code wr = Some ''00000''
      then (case wallet_data wr of
              [] \<Rightarrow> 0
            | a # _ \<Rightarrow> get_float (available a))
      else 0)"

definition get_account_wallet :: "account_status \<Rightarrow> real" where
  "get_account_wallet account_data = available_of (wallet_result account_data)"

definition tier1_limit_of :: "apy list \<Rightarrow> real" where
  "tier1_limit_of apy_list =
     (case apy_list of [] \<Rightarrow> 0 | a # _ \<Rightarrow> get_float (maxStepVal a))"

text \<open>
  The account overview of step 3: one entry per queried account. The source
  repeats the bodies of \<^verbatim>\<open>get_account_holding\<close> and \<^verbatim>\<open>get_account_wallet\<close>
  inline here.
\<close>

definition overview_entry :: "product \<Rightarrow> real \<Rightarrow> string \<times> account_status \<Rightarrow> valid_account" where
  "overview_entry selected_product tier1_limit e =
     (let personal_holding = get_account_holding (snd e) (productId selected_product);
          wallet_available = get_account_wallet (snd e)
      in \<lparr> va_id = fst e,
           va_type = acc_type (account_info (snd e)),
           holding = personal_holding,
           wallet = wallet_available,
           space_to_tier1 = max 0 (tier1_limit - personal_holding) \<rparr>)"

definition account_overview ::
  "product \<Rightarrow> real \<Rightarrow> (string \<times> account_status) list \<Rightarrow> valid_account list" where
  "account_overview selected_product tier1_limit account_status =
     map (overview_entry selected_product tier1_limit) account_status"

text \<open>The account choice of step 3: 0 for all accounts, or one index.\<close>

definition select_accounts :: "valid_account list \<Rightarrow> string \<Rightarrow> valid_account list option" where
  "select_accounts valid_accounts choice =
     (case py_int (strip choice) of
        None \<Rightarrow> None
      | Some choice_num \<Rightarrow>
          if choice_num = 0 then Some valid_accounts
          else if 1 \<le> choice_num \<and> choice_num \<le> int (length valid_accounts)
          then Some [valid_accounts ! nat (choice_num - 1)]
          else None)"

text \<open>The operations one account contributes to the plan.\<close>

definition plan_account :: "string \<Rightarrow> real \<Rightarrow> valid_account \<Rightarrow> operation list" where
  "plan_account op_choice tier1_limit account =
     (if op_choice = ''1'' then
        (let can_deposit = min (wallet account) (space_to_tier1 account)
         in if can_deposit \<ge> 0.1
            then [\<lparr> op_account_id = va_id account, op_action = subscribe,
                     op_amount = can_deposit \<rparr>]
            else [])
      else if op_choice = ''2'' then
        (if holding account > tier1_limit
         then [\<lparr> op_account_id = va_id account, op_action = redeem,
                  op_amount = holding account - tier1_limit \<rparr>]
         else [])
      else if op_choice = ''3'' then
        (if holding account > 0
         then [\<lparr> op_account_id = va_id account, op_action = redeem,
                  op_amount = holding account \<rparr>]
         else [])
      else [])"

fun plan_operations :: "string \<Rightarrow> real \<Rightarrow> valid_account list \<Rightarrow> operation list" where
  "plan_operations op_choice tier1_limit [] = []"
| "plan_operations op_choice tier1_limit (account # rest) =
     plan_account op_choice tier1_limit account @ plan_operations op_choice tier1_limit rest"

text \<open>
  Step 3 as a function of the three answers typed at its prompts. \<open>None\<close> is
  the source's \<^verbatim>\<open>return None\<close> (an error or a cancellation).
\<close>

definition step3_user_selection ::
  "product \<Rightarrow> (string \<times> account_status) list \<Rightarrow> string \<Rightarrow> string \<Rightarrow> string
     \<Rightarrow> operation list option" where
  "step3_user_selection selected_product account_status choice op_input confirm_input =
     (let apy_list = apyList selected_product in
      if apy_list = [] then None
      else
        let tier1_limit = tier1_limit_of apy_list;
            valid_accounts = account_overview selected_product tier1_limit account_status
        in (case select_accounts valid_accounts choice of
              None \<Rightarrow> None
            | Some selected_accounts \<Rightarrow>
                let op_choice = strip op_input in
                if op_choice \<notin> set [''1'', ''2'', ''3''] then None
                else
                  let operations = plan_operations op_choice tier1_limit selected_accounts in
                  if operations = [] then Some []
                  else if lower (strip confirm_input) \<noteq> ''y'' then None
                  else Some operations))"

section \<open>Account selection and credentials\<close>

definition config_loaded :: "config \<Rightarrow> bool" where
  "config_loaded c = (accounts c \<noteq> None \<or> other_keys c)"

definition accounts_of :: "config \<Rightarrow> (string \<times> account_info) list" where
  "accounts_of c = (case accounts c of None \<Rightarrow> [] | Some a \<Rightarrow> a)"

definition has_credentials :: "account_info \<Rightarrow> bool" where
  "has_credentials info =
     (acc_type info \<in> set [Some ''main'', Some ''sub'']
      \<and> truthy (apikey info) \<and> truthy (secret info))"

definition credentialed_accounts :: "config \<Rightarrow> (string \<times> account_info) list" where
  "credentialed_accounts c = filter (\<lambda>e. has_credentials (snd e)) (accounts_of c)"

text \<open>
  Step 2 of the savings workflow. The two queries are functions of the account
  key; \<open>None\<close> is the source's \<^verbatim>\<open>return False\<close>. The subscribe-info answer
  is not read by the planner and is left out.
\<close>

definition step2_query_current_assets ::
  "config option \<Rightarrow> (string \<Rightarrow> savings_result) \<Rightarrow> (string \<Rightarrow> wallet_result)
     \<Rightarrow> (string \<times> account_status) list option" where
  "step2_query_current_assets loaded get_savings_assets get_spot_assets =
     (case loaded of
        None \<Rightarrow> None
      | Some c \<Rightarrow>
          if \<not> config_loaded c then None
          else if credentialed_accounts c = [] then None
          else Some (map (\<lambda>e. (fst e,
                         \<lparr> account_info = snd e,
                           savings_result = get_savings_assets (fst e),
                           wallet_result = get_spot_assets (fst e) \<rparr>))
                       (credentialed_accounts c)))"

section \<open>Transfer planner\<close>

record balance_info =
  b_account_info :: account_info
  b_wallet_result :: wallet_result

record sub_account =
  sub_id :: string
  sub_uuid :: "string option"
  balance :: real

datatype transfer_type = main_to_sub | sub_to_main

text \<open>
  A transfer operation; \<open>op_uuid\<close> is the source's \<^verbatim>\<open>to_uuid\<close> or
  \<^verbatim>\<open>from_uuid\<close>, the sub-account's uid.
\<close>

record transfer_operation =
  t_type :: transfer_type
  from_account :: string
  to_account :: string
  op_uuid :: "string option"
  t_amount :: real

definition transfer_step1_query_balances ::
  "config option \<Rightarrow> (string \<Rightarrow> wallet_result) \<Rightarrow> (string \<times> balance_info) list option" where
  "transfer_step1_query_balances loaded get_spot_assets =
     (case loaded of
        None \<Rightarrow> None
      | Some c \<Rightarrow>
          if \<not> config_loaded c then None
          else if credentialed_accounts c = [] then None
          else Some (map (\<lambda>e. (fst e,
                         \<lparr> b_account_info = snd e,
                           b_wallet_result = get_spot_assets (fst e) \<rparr>))
                       (credentialed_accounts c)))"


text \<open>The loop over the numbers of a multi-selection: any number out of range ends it.\<close>

fun pick :: "'a list \<Rightarrow> int list \<Rightarrow> 'a list option" where
  "pick candidates [] = Some []"
| "pick candidates (num # nums) =
     (if 1 \<le> num \<and> num \<le> int (length candidates)
      then map_option ((#) (candidates ! nat (num - 1))) (pick candidates nums)
      else None)"

text \<open>
  The selection prompt of the transfer planner, written three times in the
  source with the same body: \<^verbatim>\<open>0\<close> for all, a comma-separated list, or one
  index.
\<close>

definition select_targets :: "'a list \<Rightarrow> string \<Rightarrow> 'a list option" where
  "select_targets candidates choice_input =
     (let choice = strip choice_input in
      if choice = ''0'' then Some candidates
      else if CHR '','' \<in> set choice then
        (case those (map (\<lambda>x. py_int (strip x)) (split_on (CHR '','') choice)) of
           None \<Rightarrow> None
         | Some numbers \<Rightarrow> pick candidates numbers)
      else
        (case py_int choice of
           None \<Rightarrow> None
         | Some num \<Rightarrow>
             if 1 \<le> num \<and> num \<le> int (length candidates)
             then Some [candidates ! nat (num - 1)]
             else None))"

text \<open>
  The answers typed at the prompts of the transfer planner. \<open>ti_amount\<close> is
  the result of \<^verbatim>\<open>float\<close> on the amount typed, \<open>None\<close> for its ValueError.
\<close>

record transfer_inputs =
  ti_direction :: string
  ti_amount :: "real option"
  ti_selection :: string
  ti_auto_select :: string
  ti_mode :: string
  ti_confirm :: string

text \<open>The check of the total against the main balance, with the reduced plan.\<close>

definition check_total :: "real \<Rightarrow> real \<Rightarrow> 'a list \<Rightarrow> string \<Rightarrow> 'a list option" where
  "check_total main_balance transfer_amount_per_account selected_subs auto_select_input =
     (if transfer_amount_per_account * real (length selected_subs) > main_balance then
        (let max_accounts = py_int_of_float (main_balance / transfer_amount_per_account) in
         if max_accounts > 0 then
           (if lower (strip auto_select_input) = ''y''
            then Some (take (nat max_accounts) selected_subs)
            else None)
         else None)
      else Some selected_subs)"

definition plan_main_to_sub ::
  "real \<Rightarrow> sub_account list \<Rightarrow> transfer_inputs \<Rightarrow> transfer_operation list option" where
  "plan_main_to_sub main_balance sub_accounts inp =
     (if main_balance \<le> 0 then None
      else case ti_amount inp of
        None \<Rightarrow> None
      | Some transfer_amount_per_account \<Rightarrow>
          if transfer_amount_per_account \<le> 0 then None
          else
            (case select_targets sub_accounts (ti_selection inp) of
               None \<Rightarrow> None
             | Some selected_subs \<Rightarrow>
                 (case check_total main_balance transfer_amount_per_account selected_subs
                         (ti_auto_select inp) of
                    None \<Rightarrow> None
                  | Some final_subs \<Rightarrow>
                      Some (map (\<lambda>sub. \<lparr> t_type = main_to_sub, from_account = ''main'',
                                          to_account = sub_id sub, op_uuid = sub_uuid sub,
                                          t_amount = transfer_amount_per_account \<rparr>)
                                final_subs))))"

definition plan_sub_to_main ::
  "sub_account list \<Rightarrow> transfer_inputs \<Rightarrow> transfer_operation list option" where
  "plan_sub_to_main sub_accounts inp =
     (let subs_with_balance = filter (\<lambda>sub. balance sub > 0) sub_accounts in
      if subs_with_balance = [] then None
      else
        let transfer_mode = strip (ti_mode inp) in
        if transfer_mode \<notin> set [''1'', ''2''] then None
        else if transfer_mode = ''1'' then
          (case select_targets subs_with_balance (ti_selection inp) of
             None \<Rightarrow> None
           | Some selected_subs \<Rightarrow>
               Some (map (\<lambda>sub. \<lparr> t_type = sub_to_main, from_account = sub_id sub,
                                   to_account = ''main'', op_uuid = sub_uuid sub,
                                   t_amount = balance sub \<rparr>)
                         selected_subs))
        else
          (case ti_amount inp of
             None \<Rightarrow> None
           | Some transfer_amount_per_account \<Rightarrow>
               if transfer_amount_per_account \<le> 0 then None
               else
                 let eligible_subs =
                       filter (\<lambda>sub. balance sub \<ge> transfer_amount_per_account)
                              subs_with_balance
                 in if eligible_subs = [] then None
                    else
                      (case select_targets eligible_subs (ti_selection inp) of
                         None \<Rightarrow> None
                       | Some selected_subs \<Rightarrow>
                           Some (map (\<lambda>sub. \<lparr> t_type = sub_to_main,
                                               from_account = sub_id sub,
                                               to_account = ''main'', op_uuid = sub_uuid sub,
                                               t_amount = transfer_amount_per_account \<rparr>)
                                     selected_subs))))"


section \<open>Synchronising the configuration with the exchange's sub-accounts\<close>

definition TARGET_SUBACCOUNT_COUNT :: nat where
  "TARGET_SUBACCOUNT_COUNT = 4"

text \<open>An entry of the exchange's sub-account list.\<close>

record subaccount =
  subAccountUid :: string
  subAccountName :: string

text \<open>The sort key \<^verbatim>\<open>int(x.get('subAccountUid'))\<close>, where it is defined.\<close>

definition uid_key :: "subaccount \<Rightarrow> int" where
  "uid_key sub = (case py_int (subAccountUid sub) of None \<Rightarrow> 0 | Some n \<Rightarrow> n)"

text \<open>
  \<^verbatim>\<open>sorted(subaccounts[:TARGET_SUBACCOUNT_COUNT], key=...)\<close>: the slice is
  taken first, the (stable) sort works on the slice, and a uid of the slice that
  is not an integer raises ValueError.
\<close>

definition sorted_subaccounts :: "subaccount list \<Rightarrow> py_error + subaccount list" where
  "sorted_subaccounts subaccounts =
     (let head_slice = take TARGET_SUBACCOUNT_COUNT subaccounts in
      if list_all (\<lambda>sub. py_int (subAccountUid sub) \<noteq> None) head_slice
      then Inr (sort_key uid_key head_slice)
      else Inl ValueError)"

text \<open>The loop of the check over the sorted list, from position \<open>i\<close>.\<close>

fun uuid_order_differs ::
  "nat \<Rightarrow> subaccount list \<Rightarrow> (string \<times> account_info) list \<Rightarrow> bool" where
  "uuid_order_differs i [] existing_sub_accounts = False"
| "uuid_order_differs i (sub # rest) existing_sub_accounts =
     (case map_of existing_sub_accounts (str_nat (i + 1)) of
        None \<Rightarrow> True
      | Some info \<Rightarrow>
          if uuid info \<noteq> Some (subAccountUid sub) then True
          else uuid_order_differs (Suc i) rest existing_sub_accounts)"

definition check_config_needs_update :: "config option \<Rightarrow> subaccount list \<Rightarrow> py_error + bool" where
  "check_config_needs_update loaded subaccounts =
     (case loaded of
        None \<Rightarrow> Inr True
      | Some c \<Rightarrow>
          if \<not> config_loaded c then Inr True
          else
            (case sorted_subaccounts subaccounts of
               Inl e \<Rightarrow> Inl e
             | Inr subaccounts_sorted \<Rightarrow>
                 let existing_sub_accounts =
                       filter (\<lambda>e. acc_type (snd e) = Some ''sub'') (accounts_of c)
                 in if length existing_sub_accounts \<noteq> length subaccounts_sorted
                    then Inr True
                    else Inr (uuid_order_differs 0 subaccounts_sorted existing_sub_accounts)))"

record credentials =
  c_apikey :: string
  c_secret :: string
  c_passphrase :: string

text \<open>The uid-to-credentials dictionary built from the old configuration.\<close>

fun existing_uuid_to_config ::
  "(string \<rightharpoonup> credentials) \<Rightarrow> (string \<times> account_info) list \<Rightarrow> (string \<rightharpoonup> credentials)" where
  "existing_uuid_to_config m [] = m"
| "existing_uuid_to_config m (e # rest) =
     (if acc_type (snd e) = Some ''sub'' \<and> truthy (uuid (snd e))
      then existing_uuid_to_config
             (m(get_str (uuid (snd e)) \<mapsto>
                  \<lparr> c_apikey = get_str (apikey (snd e)),
                    c_secret = get_str (secret (snd e)),
                    c_passphrase = get_str (passphrase (snd e)) \<rparr>))
             rest
      else existing_uuid_to_config m rest)"

text \<open>The entry written for one uid: the old credentials when the uid is known.\<close>

definition slot_entry :: "(string \<rightharpoonup> credentials) \<Rightarrow> string \<Rightarrow> account_info" where
  "slot_entry known uid =
     (case known uid of
        Some existing_config \<Rightarrow>
          \<lparr> acc_type = Some ''sub'', uuid = Some uid,
            apikey = Some (c_apikey existing_config),
            secret = Some (c_secret existing_config),
            passphrase = Some (c_passphrase existing_config) \<rparr>
      | None \<Rightarrow>
          \<lparr> acc_type = Some ''sub'', uuid = Some uid,
            apikey = Some [], secret = Some [], passphrase = Some [] \<rparr>)"

text \<open>The loop that writes slot \<open>i + 1\<close>, \<open>i + 2\<close>, ... into the accounts object.\<close>

fun assign_slots ::
  "nat \<Rightarrow> subaccount list \<Rightarrow> (string \<rightharpoonup> credentials) \<Rightarrow> (string \<times> account_info) list
     \<Rightarrow> (string \<times> account_info) list" where
  "assign_slots i [] known accts = accts"
| "assign_slots i (sub # rest) known accts =
     assign_slots (Suc i) rest known
       (AList.update (str_nat (i + 1)) (slot_entry known (subAccountUid sub)) accts)"

text \<open>
  The result is the configuration saved, \<open>None\<close> when the function returns
  False without saving; writing into a configuration that has no
  \<^verbatim>\<open>accounts\<close> object raises KeyError.
\<close>

definition update_config_with_subaccounts ::
  "config option \<Rightarrow> subaccount list \<Rightarrow> py_error + config option" where
  "update_config_with_subaccounts loaded subaccounts =
     (case loaded of
        None \<Rightarrow> Inr None
      | Some c \<Rightarrow>
          if \<not> config_loaded c then Inr None
          else
            (case sorted_subaccounts subaccounts of
               Inl e \<Rightarrow> Inl e
             | Inr subaccounts_sorted \<Rightarrow>
                 if subaccounts_sorted = [] then Inr (Some c)
                 else
                   (case accounts c of
                      None \<Rightarrow> Inl KeyError
                    | Some accts \<Rightarrow>
                        Inr (Some (c\<lparr> accounts :=
                          Some (assign_slots 0 subaccounts_sorted
                                  (existing_uuid_to_config Map.empty (accounts_of c))
                                  accts) \<rparr>)))))"

text \<open>The slot ids of the sub-account entries of a configuration.\<close>

definition sub_slot_ids :: "config \<Rightarrow> string list" where
  "sub_slot_ids c = map fst (filter (\<lambda>e. acc_type (snd e) = Some ''sub'') (accounts_of c))"

section \<open>Tier analysis of the final report\<close>

datatype tier_class = second_tier | over_single_tier | first_tier | not_invested

text \<open>
  The branch taken for one account. The two middle branches read
  \<^verbatim>\<open>apy_list[0]\<close>, an IndexError on an empty tier list.
\<close>

definition classify_holding :: "apy list \<Rightarrow> real \<Rightarrow> real \<Rightarrow> py_error + tier_class" where
  "classify_holding apy_list tier1_limit after_holding =
     (if after_holding > tier1_limit \<and> length apy_list > 1 then Inr second_tier
      else if after_holding > tier1_limit then
        (if apy_list = [] then Inl IndexError else Inr over_single_tier)
      else if after_holding > 0 then
        (if apy_list = [] then Inl IndexError else Inr first_tier)
      else Inr not_invested)"

text \<open>The counting loop: the two counters and the class printed for each account.\<close>

fun tier_loop ::
  "apy list \<Rightarrow> real \<Rightarrow> string option \<Rightarrow> nat \<Rightarrow> nat \<Rightarrow> (string \<times> tier_class) list
     \<Rightarrow> (string \<times> account_status) list
     \<Rightarrow> py_error + (nat \<times> nat \<times> (string \<times> tier_class) list)" where
  "tier_loop apy_list tier1_limit product_id tier1_accounts tier2_accounts printed [] =
     Inr (tier1_accounts, tier2_accounts, printed)"
| "tier_loop apy_list tier1_limit product_id tier1_accounts tier2_accounts printed (e # rest) =
     (case classify_holding apy_list tier1_limit (get_account_holding (snd e) product_id) of
        Inl err \<Rightarrow> Inl err
      | Inr second_tier \<Rightarrow>
          tier_loop apy_list tier1_limit product_id tier1_accounts (tier2_accounts + 1)
            (printed @ [(fst e, second_tier)]) rest
      | Inr over_single_tier \<Rightarrow>
          tier_loop apy_list tier1_limit product_id (tier1_accounts + 1) tier2_accounts
            (printed @ [(fst e, over_single_tier)]) rest
      | Inr first_tier \<Rightarrow>
          tier_loop apy_list tier1_limit product_id (tier1_accounts + 1) tier2_accounts
            (printed @ [(fst e, first_tier)]) rest
      | Inr not_invested \<Rightarrow>
          tier_loop apy_list tier1_limit product_id tier1_accounts tier2_accounts
            (printed @ [(fst e, not_invested)]) rest)"

text \<open>The tier analysis at the end of step 5, on the snapshot taken after execution.\<close>

definition step5_tier_analysis ::
  "product \<Rightarrow> (string \<times> account_status) list
     \<Rightarrow> py_error + (nat \<times> nat \<times> (string \<times> tier_class) list)" where
  "step5_tier_analysis selected_product final_account_status =
     tier_loop (apyList selected_product) (tier1_limit_of (apyList selected_product))
       (productId selected_product) 0 0 [] final_account_status"

section \<open>Sample data for the concrete checks\<close>

definition sample_product :: product where
  "sample_product =
     \<lparr> productId = Some ''p1'',
       apyList = [\<lparr> maxStepVal = Some 300 \<rparr>, \<lparr> maxStepVal = Some 120000000 \<rparr>] \<rparr>"

definition single_tier_product :: product where
  "single_tier_product =
     \<lparr> productId = Some ''p1'', apyList = [\<lparr> maxStepVal = Some 300 \<rparr>] \<rparr>"

definition mk_account :: "string \<Rightarrow> string \<Rightarrow> string \<Rightarrow> account_info" where
  "mk_account ty uid key =
     \<lparr> acc_type = Some ty, uuid = Some uid, apikey = Some key,
       secret = Some (if key = [] then [] else ''s-'' @ key),
       passphrase = Some (if key = [] then [] else ''p-'' @ key) \<rparr>"

definition mk_savings :: "string \<Rightarrow> real \<Rightarrow> savings_result" where
  "mk_savings code amount =
     \<lparr> savings_code = Some code,
       resultList = [\<lparr> item_productId = Some ''p1'', holdAmount = Some amount \<rparr>] \<rparr>"

definition mk_wallet :: "string \<Rightarrow> real \<Rightarrow> wallet_result" where
  "mk_wallet code amount =
     \<lparr> wallet_code = Some code,
       wallet_data = [\<lparr> available = Some amount, frozen = Some 0 \<rparr>] \<rparr>"

definition mk_status :: "string \<Rightarrow> string \<Rightarrow> real \<Rightarrow> string \<Rightarrow> real \<Rightarrow> account_status" where
  "mk_status ty scode held wcode avail =
     \<lparr> account_info = mk_account ty ''9'' ''k'',
       savings_result = mk_savings scode held,
       wallet_result = mk_wallet wcode avail \<rparr>"

definition mk_sub :: "string \<Rightarrow> subaccount" where
  "mk_sub uid = \<lparr> subAccountUid = uid, subAccountName = ''n'' @ uid \<rparr>"

definition mk_target :: "string \<Rightarrow> real \<Rightarrow> sub_account" where
  "mk_target k b = \<lparr> sub_id = k, sub_uuid = Some (''10'' @ k), balance = b \<rparr>"

definition sample_statuses :: "(string \<times> account_status) list" where
  "sample_statuses =
     [(''main'', mk_status ''main'' ''00000'' 0 ''00000'' 0.099999),
      (''1'', mk_status ''sub'' ''00000'' 0 ''00000'' 0.1),
      (''2'', mk_status ''sub'' ''00000'' 250 ''00000'' 500),
      (''3'', mk_status ''sub'' ''00000'' 420 ''00000'' 7)]"

definition sample_balances :: "(string \<times> balance_info) list" where
  "sample_balances =
     (''main'', \<lparr> b_account_info = mk_account ''main'' ''100'' ''k'',
                  b_wallet_result = mk_wallet ''00000'' 100 \<rparr>)
     # map (\<lambda>k. (k, \<lparr> b_account_info = mk_account ''sub'' (''10'' @ k) ''k'',
                         b_wallet_result = mk_wallet ''00000'' 0 \<rparr>))
           [''1'', ''2'', ''3'', ''4'', ''5'']"

definition sample_inputs :: transfer_inputs where
  "sample_inputs =
     \<lparr> ti_direction = ''1'', ti_amount = Some 30, ti_selection = ''3,1,5,2,4'',
       ti_auto_select = ''y'', ti_mode = [], ti_confirm = ''y'' \<rparr>"

definition sample_subs :: "sub_account list" where
  "sample_subs = [mk_target ''1'' 12, mk_target ''2'' 0, mk_target ''3'' 40]"

definition sample_config :: config where
  "sample_config =
     \<lparr> accounts = Some [(''main'', mk_account ''main'' ''100'' ''k''),
                        (''1'', mk_account ''sub'' ''101'' ''k''),
                        (''2'', mk_account ''sub'' ''102'' [])],
       other_keys = False \<rparr>"

lemmas sample_defs =
  sample_product_def single_tier_product_def mk_account_def mk_savings_def mk_wallet_def
  mk_status_def mk_sub_def mk_target_def sample_statuses_def sample_balances_def
  sample_inputs_def sample_subs_def sample_config_def

lemmas string_defs =
  strip_def is_space_def lower_def lower_char_def is_digit_def digit_val_def py_int_def

section \<open>Properties of the savings planner\<close>








lemma strip_one: "strip ''1'' = ''1''" and strip_two: "strip ''2'' = ''2''"
  and strip_three: "strip ''3'' = ''3''" and strip_zero: "strip ''0'' = ''0''"
  by (simp_all add: strip_def is_space_def)



lemma sample_overview:
  "account_overview sample_product 300 sample_statuses =
     [\<lparr> va_id = ''main'', va_type = Some ''main'', holding = 0, wallet = 0.099999,
        space_to_tier1 = 300 \<rparr>,
      \<lparr> va_id = ''1'', va_type = Some ''sub'', holding = 0, wallet = 0.1,
        space_to_tier1 = 300 \<rparr>,
      \<lparr> va_id = ''2'', va_type = Some ''sub'', holding = 250, wallet = 500,
        space_to_tier1 = 50 \<rparr>,
      \<lparr> va_id = ''3'', va_type = Some ''sub'', holding = 420, wallet = 7,
        space_to_tier1 = 0 \<rparr>]"
  by (simp add: account_overview_def overview_entry_def Let_def sample_defs
      get_account_holding_def get_account_wallet_def available_of_def get_float_def)

lemma sample_tier1: "tier1_limit_of (apyList sample_product) = 300"
  by (simp add: tier1_limit_of_def sample_product_def get_float_def)




















section \<open>Properties of the transfer planner\<close>









lemma pick_in_range:
  "\<forall>n\<in>set nums. 1 \<le> n \<and> n \<le> int (length candidates) \<Longrightarrow>
   pick candidates nums = Some (map (\<lambda>n. candidates ! nat (n - 1)) nums)"
  by (induction nums) simp_all

lemma pick_out_of_range:
  "\<exists>n\<in>set nums. \<not> (1 \<le> n \<and> n \<le> int (length candidates)) \<Longrightarrow>
   pick candidates nums = None"
  by (induction nums) auto

lemma pick_eq:
  "pick candidates nums =
     (if \<forall>n\<in>set nums. 1 \<le> n \<and> n \<le> int (length candidates)
      then Some (map (\<lambda>n. candidates ! nat (n - 1)) nums) else None)"
  using pick_in_range [of nums candidates] pick_out_of_range [of nums candidates]
  by (cases "\<forall>n\<in>set nums. 1 \<le> n \<and> n \<le> int (length candidates)") auto

lemma int_digits_chars:
  "int_digits prev acc cs = Some n \<Longrightarrow> \<forall>c\<in>set cs. is_digit c \<or> c = CHR ''_''"
  by (induction cs arbitrary: prev acc) (auto split: if_splits)

lemma comma_not_digit: "\<not> is_digit (CHR '','')" "CHR '','' \<noteq> CHR ''_''"
  by (simp_all add: is_digit_def)

lemma int_digits_comma:
  "CHR '','' \<in> set cs \<Longrightarrow> int_digits prev acc cs = None"
  using int_digits_chars [of prev acc cs] comma_not_digit
  by (cases "int_digits prev acc cs") auto

lemma dropWhile_keeps:
  "x \<in> set xs \<Longrightarrow> \<not> P x \<Longrightarrow> x \<in> set (dropWhile P xs)"
  by (induction xs) auto

lemma strip_keeps_comma:
  "CHR '','' \<in> set s \<Longrightarrow> CHR '','' \<in> set (strip s)"
proof -
  assume c: "CHR '','' \<in> set s"
  have ns: "\<not> is_space (CHR '','')"
    by (simp add: is_space_def)
  have "CHR '','' \<in> set (dropWhile is_space s)"
    using c ns by (simp add: dropWhile_keeps)
  then have "CHR '','' \<in> set (rev (dropWhile is_space s))" by simp
  then have "CHR '','' \<in> set (dropWhile is_space (rev (dropWhile is_space s)))"
    using ns by (simp add: dropWhile_keeps)
  then show ?thesis by (simp add: strip_def)
qed

lemma py_int_comma:
  assumes "CHR '','' \<in> set s"
  shows "py_int s = None"
proof (cases "strip s")
  case Nil
  then show ?thesis by (simp add: py_int_def)
next
  case (Cons c cs)
  have mem: "CHR '','' \<in> set (c # cs)"
    using strip_keeps_comma [OF assms] Cons by simp
  show ?thesis
  proof (cases "c = CHR ''-'' \<or> c = CHR ''+''")
    case True
    then have "CHR '','' \<in> set cs" using mem by auto
    then show ?thesis
      using True Cons by (auto simp: py_int_def int_digits_comma)
  next
    case False
    then show ?thesis
      using Cons int_digits_comma [OF mem] by (simp add: py_int_def)
  qed
qed

lemma select_accounts_comma:
  "CHR '','' \<in> set choice \<Longrightarrow> select_accounts vs choice = None"
  using py_int_comma [OF strip_keeps_comma, of choice]
  by (simp add: select_accounts_def)

lemma plan_main_to_sub_no_selection:
  "select_targets subs (ti_selection inp) = None \<Longrightarrow> plan_main_to_sub mb subs inp = None"
  by (simp add: plan_main_to_sub_def split: option.splits)

lemma plan_sub_to_main_no_selection:
  assumes "strip (ti_mode inp) = ''1''"
      and "select_targets (filter (\<lambda>sub. balance sub > 0) subs) (ti_selection inp) = None"
  shows "plan_sub_to_main subs inp = None"
  using assms by (simp add: plan_sub_to_main_def Let_def)

lemma plan_sub_to_main_fixed_no_selection:
  assumes "strip (ti_mode inp) = ''2''" and "ti_amount inp = Some amt"
      and "select_targets (filter (\<lambda>sub. balance sub \<ge> amt)
                             (filter (\<lambda>sub. balance sub > 0) subs)) (ti_selection inp) = None"
  shows "plan_sub_to_main subs inp = None"
  using assms by (simp add: plan_sub_to_main_def Let_def)

lemma step3_no_selection:
  "select_accounts (account_overview p (tier1_limit_of (apyList p)) sts) choice = None \<Longrightarrow>
   step3_user_selection p sts choice op_in confirm = None"
  by (simp add: step3_user_selection_def Let_def)


lemma select_targets_all:
  "strip c = ''0'' \<Longrightarrow> select_targets subs c = Some subs"
  by (simp add: select_targets_def)

lemma select_targets_multi:
  assumes "CHR '','' \<in> set (strip c)"
      and "those (map (\<lambda>x. py_int (strip x)) (split_on (CHR '','') (strip c))) = Some nums"
  shows "select_targets subs c = pick subs nums"
proof -
  have "strip c \<noteq> ''0''" using assms(1) by auto
  then show ?thesis using assms by (simp add: select_targets_def Let_def)
qed

lemma select_targets_single:
  assumes "strip c \<noteq> ''0''" and "CHR '','' \<notin> set (strip c)"
      and "py_int (strip c) = Some n"
  shows "select_targets subs c =
           (if 1 \<le> n \<and> n \<le> int (length subs) then Some [subs ! nat (n - 1)] else None)"
  using assms by (simp add: select_targets_def Let_def)

text \<open>
  Claim C9 as stated fails for the savings planner: with four accounts shown,
  the input \<open>1,2\<close> selects nothing and step 3 returns without a plan.
\<close>

theorem selection_counterexample:
  "length (account_overview sample_product 300 sample_statuses) = 4
   \<and> select_accounts (account_overview sample_product 300 sample_statuses) ''1,2'' = None
   \<and> step3_user_selection sample_product sample_statuses ''1,2'' ''1'' ''y'' = None"
proof -
  have "py_int (strip ''1,2'') = None"
    by (simp add: string_defs)
  then show ?thesis
    by (simp add: step3_user_selection_def select_accounts_def Let_def account_overview_def
        sample_statuses_def sample_product_def)
qed

text \<open>
  Claim C9, amended. The three selection prompts of the transfer planner accept
  \<open>0\<close> for all candidates, one 1-based index, or a comma-separated list of
  1-based indices, which selects the listed candidates in the order typed; the
  account prompt of the savings planner accepts \<open>0\<close> for all accounts or one
  1-based index, and rejects every input that contains a comma. At each prompt
  an index out of range selects nothing, and the planning step then returns
  without a plan.
\<close>

theorem selection_inputs:
  "(strip c_all = ''0'' \<longrightarrow> select_targets subs c_all = Some subs)
   \<and> (CHR '','' \<in> set (strip c_list)
        \<and> those (map (\<lambda>x. py_int (strip x)) (split_on (CHR '','') (strip c_list))) = Some nums_ok
        \<and> (\<forall>n\<in>set nums_ok. 1 \<le> n \<and> n \<le> int (length subs))
       \<longrightarrow> select_targets subs c_list = Some (map (\<lambda>n. subs ! nat (n - 1)) nums_ok))
   \<and> (CHR '','' \<in> set (strip c_bad)
        \<and> those (map (\<lambda>x. py_int (strip x)) (split_on (CHR '','') (strip c_bad))) = Some nums_bad
        \<and> (\<exists>n\<in>set nums_bad. \<not> (1 \<le> n \<and> n \<le> int (length subs)))
       \<longrightarrow> select_targets subs c_bad = None)
   \<and> (strip c_one \<noteq> ''0'' \<and> CHR '','' \<notin> set (strip c_one) \<and> py_int (strip c_one) = Some n_one
        \<and> 1 \<le> n_one \<and> n_one \<le> int (length subs)
       \<longrightarrow> select_targets subs c_one = Some [subs ! nat (n_one - 1)])
   \<and> (strip c_far \<noteq> ''0'' \<and> CHR '','' \<notin> set (strip c_far) \<and> py_int (strip c_far) = Some n_far
        \<and> \<not> (1 \<le> n_far \<and> n_far \<le> int (length subs))
       \<longrightarrow> select_targets subs c_far = None)
   \<and> (select_targets subs (ti_selection inp_a) = None
       \<longrightarrow> plan_main_to_sub mb subs inp_a = None)
   \<and> (strip (ti_mode inp_b) = ''1''
        \<and> select_targets (filter (\<lambda>sub. balance sub > 0) subs) (ti_selection inp_b) = None
       \<longrightarrow> plan_sub_to_main subs inp_b = None)
   \<and> (strip (ti_mode inp_c) = ''2'' \<and> ti_amount inp_c = Some amt
        \<and> select_targets (filter (\<lambda>sub. balance sub \<ge> amt)
                             (filter (\<lambda>sub. balance sub > 0) subs)) (ti_selection inp_c) = None
       \<longrightarrow> plan_sub_to_main subs inp_c = None)
   \<and> (py_int (strip s_all) = Some 0 \<longrightarrow> select_accounts vs s_all = Some vs)
   \<and> (py_int (strip s_one) = Some k_one \<and> 1 \<le> k_one \<and> k_one \<le> int (length vs)
       \<longrightarrow> select_accounts vs s_one = Some [vs ! nat (k_one - 1)])
   \<and> (py_int (strip s_far) = Some k_far \<and> k_far \<noteq> 0 \<and> \<not> (1 \<le> k_far \<and> k_far \<le> int (length vs))
       \<longrightarrow> select_accounts vs s_far = None)
   \<and> (CHR '','' \<in> set s_list \<longrightarrow> select_accounts vs s_list = None)
   \<and> (select_accounts (account_overview p (tier1_limit_of (apyList p)) sts) s_none = None
       \<longrightarrow> step3_user_selection p sts s_none op_in confirm = None)"
proof (intro conjI impI)
  assume "strip c_all = ''0''"
  then show "select_targets subs c_all = Some subs" by (rule select_targets_all)
next
  assume a: "CHR '','' \<in> set (strip c_list)
        \<and> those (map (\<lambda>x. py_int (strip x)) (split_on (CHR '','') (strip c_list))) = Some nums_ok
        \<and> (\<forall>n\<in>set nums_ok. 1 \<le> n \<and> n \<le> int (length subs))"
  then have "select_targets subs c_list = pick subs nums_ok"
    using select_targets_multi by blast
  then show "select_targets subs c_list = Some (map (\<lambda>n. subs ! nat (n - 1)) nums_ok)"
    using a pick_in_range [of nums_ok subs] by simp
next
  assume a: "CHR '','' \<in> set (strip c_bad)
        \<and> those (map (\<lambda>x. py_int (strip x)) (split_on (CHR '','') (strip c_bad))) = Some nums_bad
        \<and> (\<exists>n\<in>set nums_bad. \<not> (1 \<le> n \<and> n \<le> int (length subs)))"
  then have "select_targets subs c_bad = pick subs nums_bad"
    using select_targets_multi by blast
  then show "select_targets subs c_bad = None"
    using a pick_out_of_range [of nums_bad subs] by simp
next
  assume "strip c_one \<noteq> ''0'' \<and> CHR '','' \<notin> set (strip c_one) \<and> py_int (strip c_one) = Some n_one
        \<and> 1 \<le> n_one \<and> n_one \<le> int (length subs)"
  then show "select_targets subs c_one = Some [subs ! nat (n_one - 1)]"
    using select_targets_single [of c_one n_one subs] by simp
next
  assume "strip c_far \<noteq> ''0'' \<and> CHR '','' \<notin> set (strip c_far) \<and> py_int (strip c_far) = Some n_far
        \<and> \<not> (1 \<le> n_far \<and> n_far \<le> int (length subs))"
  then show "select_targets subs c_far = None"
    using select_targets_single [of c_far n_far subs] by auto
next
  assume "select_targets subs (ti_selection inp_a) = None"
  then show "plan_main_to_sub mb subs inp_a = None"
    by (rule plan_main_to_sub_no_selection)
next
  assume "strip (ti_mode inp_b) = ''1''
        \<and> select_targets (filter (\<lambda>sub. balance sub > 0) subs) (ti_selection inp_b) = None"
  then show "plan_sub_to_main subs inp_b = None"
    using plan_sub_to_main_no_selection by blast
next
  assume "strip (ti_mode inp_c) = ''2'' \<and> ti_amount inp_c = Some amt
        \<and> select_targets (filter (\<lambda>sub. balance sub \<ge> amt)
                             (filter (\<lambda>sub. balance sub > 0) subs)) (ti_selection inp_c) = None"
  then show "plan_sub_to_main subs inp_c = None"
    using plan_sub_to_main_fixed_no_selection by blast
next
  assume "py_int (strip s_all) = Some 0"
  then show "select_accounts vs s_all = Some vs"
    by (simp add: select_accounts_def)
next
  assume "py_int (strip s_one) = Some k_one \<and> 1 \<le> k_one \<and> k_one \<le> int (length vs)"
  then show "select_accounts vs s_one = Some [vs ! nat (k_one - 1)]"
    by (auto simp: select_accounts_def)
next
  assume "py_int (strip s_far) = Some k_far \<and> k_far \<noteq> 0 \<and> \<not> (1 \<le> k_far \<and> k_far \<le> int (length vs))"
  then show "select_accounts vs s_far = None"
    by (auto simp: select_accounts_def)
next
  assume "CHR '','' \<in> set s_list"
  then show "select_accounts vs s_list = None" by (rule select_accounts_comma)
next
  assume "select_accounts (account_overview p (tier1_limit_of (apyList p)) sts) s_none = None"
  then show "step3_user_selection p sts s_none op_in confirm = None"
    by (rule step3_no_selection)
qed


theorem selection_inputs_witness:
  "strip '' 0 '' = ''0''
   \<and> select_targets sample_subs '' 0 '' = Some sample_subs
   \<and> those (map (\<lambda>x. py_int (strip x)) (split_on (CHR '','') (strip ''3, 1''))) = Some [3, 1]
   \<and> select_targets sample_subs ''3, 1'' = Some [mk_target ''3'' 40, mk_target ''1'' 12]
   \<and> those (map (\<lambda>x. py_int (strip x)) (split_on (CHR '','') (strip ''1,4''))) = Some [1, 4]
   \<and> select_targets sample_subs ''1,4'' = None
   \<and> py_int (strip ''2'') = Some 2
   \<and> select_targets sample_subs ''2'' = Some [mk_target ''2'' 0]
   \<and> py_int (strip ''7'') = Some 7
   \<and> select_targets sample_subs ''7'' = None
   \<and> plan_main_to_sub 100 sample_subs (sample_inputs\<lparr> ti_selection := ''1,4'' \<rparr>) = None
   \<and> plan_sub_to_main sample_subs
         (sample_inputs\<lparr> ti_mode := ''1'', ti_selection := ''3'' \<rparr>) = None
   \<and> plan_sub_to_main sample_subs
         (sample_inputs\<lparr> ti_mode := ''2'', ti_amount := Some 20, ti_selection := ''2'' \<rparr>) = None
   \<and> select_accounts (account_overview sample_product 300 sample_statuses) ''0''
       = Some (account_overview sample_product 300 sample_statuses)
   \<and> select_accounts (account_overview sample_product 300 sample_statuses) ''2''
       = Some [account_overview sample_product 300 sample_statuses ! 1]
   \<and> py_int (strip ''5'') = Some 5
   \<and> select_accounts (account_overview sample_product 300 sample_statuses) ''5'' = None
   \<and> select_accounts (account_overview sample_product 300 sample_statuses) ''1,2'' = None
   \<and> step3_user_selection sample_product sample_statuses ''1,2'' ''1'' ''y'' = None"
proof -
  have s0: "strip '' 0 '' = ''0''"
    by (simp add: string_defs)
  have m1: "CHR '','' \<in> set (strip ''3, 1'')"
    "those (map (\<lambda>x. py_int (strip x)) (split_on (CHR '','') (strip ''3, 1''))) = Some [3, 1]"
    by (simp_all add: string_defs)
  have m2: "CHR '','' \<in> set (strip ''1,4'')"
    "those (map (\<lambda>x. py_int (strip x)) (split_on (CHR '','') (strip ''1,4''))) = Some [1, 4]"
    by (simp_all add: string_defs)
  have p2: "strip ''2'' \<noteq> ''0''" "CHR '','' \<notin> set (strip ''2'')" "py_int (strip ''2'') = Some 2"
    by (simp_all add: string_defs)
  have p7: "strip ''7'' \<noteq> ''0''" "CHR '','' \<notin> set (strip ''7'')" "py_int (strip ''7'') = Some 7"
    by (simp_all add: string_defs)
  have p3: "strip ''3'' \<noteq> ''0''" "CHR '','' \<notin> set (strip ''3'')" "py_int (strip ''3'') = Some 3"
    by (simp_all add: string_defs)
  have p0: "py_int (strip ''0'') = Some 0"
    by (simp add: string_defs)
  have p5: "py_int (strip ''5'') = Some 5"
    by (simp add: string_defs)
  have len: "length sample_subs = 3"
    "length (account_overview sample_product 300 sample_statuses) = 4"
    by (simp_all add: sample_subs_def sample_overview)
  have t: "tier1_limit_of (apyList sample_product) = 300"
    by (rule sample_tier1)
  note inst = selection_inputs [where c_all = "'' 0 ''" and subs = sample_subs
      and c_list = "''3, 1''" and nums_ok = "[3, 1]"
      and c_bad = "''1,4''" and nums_bad = "[1, 4]"
      and c_one = "''2''" and n_one = 2 and c_far = "''7''" and n_far = 7
      and inp_a = "sample_inputs\<lparr> ti_selection := ''1,4'' \<rparr>" and mb = 100
      and inp_b = "sample_inputs\<lparr> ti_mode := ''1'', ti_selection := ''3'' \<rparr>"
      and inp_c = "sample_inputs\<lparr> ti_mode := ''2'', ti_amount := Some 20,
                                    ti_selection := ''2'' \<rparr>"
      and amt = 20
      and s_all = "''0''" and vs = "account_overview sample_product 300 sample_statuses"
      and s_one = "''2''" and k_one = 2 and s_far = "''5''" and k_far = 5
      and s_list = "''1,2''" and p = sample_product and sts = sample_statuses
      and s_none = "''1,2''" and op_in = "''1''" and confirm = "''y''"]
  note i1 = inst [THEN conjunct1] and r1 = inst [THEN conjunct2]
  note i2 = r1 [THEN conjunct1] and r2 = r1 [THEN conjunct2]
  note i3 = r2 [THEN conjunct1] and r3 = r2 [THEN conjunct2]
  note i4 = r3 [THEN conjunct1] and r4 = r3 [THEN conjunct2]
  note i5 = r4 [THEN conjunct1] and r5 = r4 [THEN conjunct2]
  note i6 = r5 [THEN conjunct1] and r6 = r5 [THEN conjunct2]
  note i7 = r6 [THEN conjunct1] and r7 = r6 [THEN conjunct2]
  note i8 = r7 [THEN conjunct1] and r8 = r7 [THEN conjunct2]
  note i9 = r8 [THEN conjunct1] and r9 = r8 [THEN conjunct2]
  note i10 = r9 [THEN conjunct1] and r10 = r9 [THEN conjunct2]
  note i11 = r10 [THEN conjunct1] and r11 = r10 [THEN conjunct2]
  note i12 = r11 [THEN conjunct1] and i13 = r11 [THEN conjunct2]
  have a1: "select_targets sample_subs '' 0 '' = Some sample_subs"
    using i1 s0 by blast
  have a2: "select_targets sample_subs ''3, 1'' = Some [mk_target ''3'' 40, mk_target ''1'' 12]"
    using i2 m1 len by (simp add: sample_subs_def)
  have a3: "select_targets sample_subs ''1,4'' = None"
    using i3 m2 len by simp
  have a4: "select_targets sample_subs ''2'' = Some [mk_target ''2'' 0]"
    using i4 p2 len by (simp add: sample_subs_def)
  have a5: "select_targets sample_subs ''7'' = None"
    using i5 p7 len by simp
  have a6: "plan_main_to_sub 100 sample_subs (sample_inputs\<lparr> ti_selection := ''1,4'' \<rparr>) = None"
    using i6 a3 by simp
  have f1: "select_targets (filter (\<lambda>sub. balance sub > 0) sample_subs) ''3'' = None"
    using select_targets_single [OF p3, of "filter (\<lambda>sub. balance sub > 0) sample_subs"]
    by (simp add: sample_subs_def mk_target_def)
  have a7: "plan_sub_to_main sample_subs
         (sample_inputs\<lparr> ti_mode := ''1'', ti_selection := ''3'' \<rparr>) = None"
    using i7 f1 by (simp add: strip_one)
  have f2: "select_targets (filter (\<lambda>sub. balance sub \<ge> 20)
              (filter (\<lambda>sub. balance sub > 0) sample_subs)) ''2'' = None"
    using select_targets_single [OF p2, of "filter (\<lambda>sub. balance sub \<ge> 20)
              (filter (\<lambda>sub. balance sub > 0) sample_subs)"]
    by (simp add: sample_subs_def mk_target_def)
  have a8: "plan_sub_to_main sample_subs
         (sample_inputs\<lparr> ti_mode := ''2'', ti_amount := Some 20, ti_selection := ''2'' \<rparr>) = None"
    using i8 f2 by (simp add: strip_two)
  have a9: "select_accounts (account_overview sample_product 300 sample_statuses) ''0''
       = Some (account_overview sample_product 300 sample_statuses)"
    using i9 p0 by blast
  have a10: "select_accounts (account_overview sample_product 300 sample_statuses) ''2''
       = Some [account_overview sample_product 300 sample_statuses ! 1]"
    using i10 p2(3) len(2) by simp
  have a11: "select_accounts (account_overview sample_product 300 sample_statuses) ''5'' = None"
    using i11 p5 len(2) by simp
  have a12: "select_accounts (account_overview sample_product 300 sample_statuses) ''1,2'' = None"
    using i12 by simp
  have a13: "step3_user_selection sample_product sample_statuses ''1,2'' ''1'' ''y'' = None"
    using i13 a12 t by simp
  show ?thesis
    using s0 m1(2) m2(2) p2(3) p7(3) p5 a1 a2 a3 a4 a5 a6 a7 a8 a9 a10 a11 a12 a13
    by blast
qed

end
